theory Spec2Isabelle
  imports Complex_Main
begin

section \<open>Strings of the JavaScript runtime\<close>

text \<open>
  The scoring engine is the function \<^verbatim>\<open>analyzeContent\<close> of the component
  \<^verbatim>\<open>FraudPrevention\<close>. Its inputs are JavaScript strings, which are sequences of
  UTF-16 code units: \<^verbatim>\<open>content.length\<close> and \<^verbatim>\<open>slice\<close> count code units, and
  the patterns of the rule tables mention Cyrillic and Greek letters, which do not fit
  into a byte. A string is therefore a list of code units, and \<open>js\<close> reads an ASCII
  literal of the source text as such a list.
\<close>

type_synonym code_unit = nat
type_synonym jsstring = "code_unit list"

definition js :: "string \<Rightarrow> jsstring" where
  "js s = map of_char s"

text \<open>
  White space and line terminators of ECMAScript: what \<^verbatim>\<open>trim\<close> strips and what
  the class \<^verbatim>\<open>\s\<close> accepts.
\<close>

definition is_line_terminator :: "code_unit \<Rightarrow> bool" where
  "is_line_terminator c = (c = 10 \<or> c = 13 \<or> c = 8232 \<or> c = 8233)"

definition is_ws :: "code_unit \<Rightarrow> bool" where
  "is_ws c = (c = 9 \<or> c = 10 \<or> c = 11 \<or> c = 12 \<or> c = 13 \<or> c = 32 \<or> c = 160
     \<or> c = 5760 \<or> (8192 \<le> c \<and> c \<le> 8202) \<or> c = 8232 \<or> c = 8233 \<or> c = 8239
     \<or> c = 8287 \<or> c = 12288 \<or> c = 65279)"

definition trim :: "jsstring \<Rightarrow> jsstring" where
  "trim s = rev (dropWhile is_ws (rev (dropWhile is_ws s)))"

definition startsWith :: "jsstring \<Rightarrow> jsstring \<Rightarrow> bool" where
  "startsWith s t = (take (length t) s = t)"

definition endsWith :: "jsstring \<Rightarrow> jsstring \<Rightarrow> bool" where
  "endsWith s t = (length t \<le> length s \<and> drop (length s - length t) s = t)"

text \<open>
  \<^verbatim>\<open>s.split('.')\<close>: the pieces between the separators; a string without the
  separator (the empty one too) is a single piece.
\<close>

fun split_on :: "code_unit \<Rightarrow> jsstring \<Rightarrow> jsstring list" where
  "split_on d [] = [[]]"
| "split_on d (c # cs) =
     (if c = d then [] # split_on d cs
      else (case split_on d cs of [] \<Rightarrow> [[c]] | p # ps \<Rightarrow> (c # p) # ps))"

text \<open>
  Case mapping of single code units. The runtime's tables cover all of Unicode; the model
  has the letters of ASCII, of Latin-1, and the basic Greek and Cyrillic letters, which
  are the alphabets the patterns of this program mention. Every other code unit is
  taken to have no case.
\<close>

definition upper_unit :: "code_unit \<Rightarrow> code_unit" where
  "upper_unit c =
     (if 97 \<le> c \<and> c \<le> 122 then c - 32
      else if (224 \<le> c \<and> c \<le> 246) \<or> (248 \<le> c \<and> c \<le> 254) then c - 32
      else if c = 962 then 931
      else if 945 \<le> c \<and> c \<le> 969 then c - 32
      else if 1072 \<le> c \<and> c \<le> 1103 then c - 32
      else c)"

definition lower_unit :: "code_unit \<Rightarrow> code_unit" where
  "lower_unit c =
     (if 65 \<le> c \<and> c \<le> 90 then c + 32
      else if (192 \<le> c \<and> c \<le> 214) \<or> (216 \<le> c \<and> c \<le> 222) then c + 32
      else if (913 \<le> c \<and> c \<le> 929) \<or> (931 \<le> c \<and> c \<le> 937) then c + 32
      else if 1040 \<le> c \<and> c \<le> 1071 then c + 32
      else c)"

definition toLowerCase :: "jsstring \<Rightarrow> jsstring" where
  "toLowerCase s = map lower_unit s"

section \<open>Regular expressions\<close>

text \<open>
  The rule tables are regular-expression literals. The constructs they use are literal
  text, character classes (with ranges, \<^verbatim>\<open>\d\<close> and \<^verbatim>\<open>\s\<close>, plain or negated),
  the dot, the assertions \<^verbatim>\<open>^\<close>, \<^verbatim>\<open>$\<close> and \<^verbatim>\<open>\b\<close>, sequence, alternation
  and counted repetition (\<^verbatim>\<open>*\<close> is \<open>Rep 0 None\<close>, \<^verbatim>\<open>+\<close> is \<open>Rep 1 None\<close>,
  \<^verbatim>\<open>?\<close> is \<open>Rep 0 (Some 1)\<close>, \<^verbatim>\<open>{m,n}\<close> is \<open>Rep m (Some n)\<close>). No pattern
  has a back-reference, a look-around or a flag other than \<^verbatim>\<open>i\<close>.
\<close>

datatype atom = Ch code_unit | Rng code_unit code_unit | Dig | Spc

datatype regex =
    Str jsstring
  | Cls bool "atom list"
  | Dot
  | Bol
  | Eol
  | Wordb
  | Seq regex regex
  | Alt regex regex
  | Rep nat "nat option" regex

text \<open>
  A matcher state is the code unit before the current position (\<open>None\<close> at the start of
  the input) and the input that is left. A matcher maps a state to the states in which
  a match of the expression can end. \<^verbatim>\<open>test\<close> only asks whether some match exists, so
  the order in which a backtracking engine would try them does not matter.
\<close>

type_synonym mstate = "code_unit option \<times> jsstring"

definition canon :: "bool \<Rightarrow> code_unit \<Rightarrow> code_unit" where
  "canon ic c = (if ic then upper_unit c else c)"

definition in_rng :: "code_unit \<Rightarrow> code_unit \<Rightarrow> code_unit \<Rightarrow> bool" where
  "in_rng lo hi c = (lo \<le> c \<and> c \<le> hi)"

fun atom_match :: "bool \<Rightarrow> atom \<Rightarrow> code_unit \<Rightarrow> bool" where
  "atom_match ic (Ch a) c = (canon ic a = canon ic c)"
| "atom_match ic (Rng lo hi) c =
     (in_rng lo hi c \<or> (ic \<and> (in_rng lo hi (upper_unit c) \<or> in_rng lo hi (lower_unit c))))"
| "atom_match ic Dig c = in_rng 48 57 c"
| "atom_match ic Spc c = is_ws c"

definition is_word_unit :: "code_unit \<Rightarrow> bool" where
  "is_word_unit c = (in_rng 97 122 c \<or> in_rng 65 90 c \<or> in_rng 48 57 c \<or> c = 95)"

definition word_before :: "mstate \<Rightarrow> bool" where
  "word_before st = (case fst st of None \<Rightarrow> False | Some c \<Rightarrow> is_word_unit c)"

definition word_after :: "mstate \<Rightarrow> bool" where
  "word_after st = (case snd st of [] \<Rightarrow> False | c # _ \<Rightarrow> is_word_unit c)"

fun str_match :: "bool \<Rightarrow> jsstring \<Rightarrow> mstate \<Rightarrow> mstate list" where
  "str_match ic [] st = [st]"
| "str_match ic (a # as) (p, []) = []"
| "str_match ic (a # as) (p, c # cs) =
     (if canon ic a = canon ic c then str_match ic as (Some c, cs) else [])"

text \<open>
  Repetition. \<open>iter f n\<close> runs the body exactly \<open>n\<close> times; \<open>rounds f k\<close> collects the
  states after at most \<open>k\<close> further rounds. An unbounded repetition gets as many further
  rounds as there are code units left: a round that consumes nothing ends in the state
  it started from, so the rounds that matter each consume at least one unit.
\<close>

fun iter :: "(mstate \<Rightarrow> mstate list) \<Rightarrow> nat \<Rightarrow> mstate list \<Rightarrow> mstate list" where
  "iter f 0 sts = sts"
| "iter f (Suc n) sts = iter f n (concat (map f sts))"

fun rounds :: "(mstate \<Rightarrow> mstate list) \<Rightarrow> nat \<Rightarrow> mstate list \<Rightarrow> mstate list" where
  "rounds f 0 sts = sts"
| "rounds f (Suc k) sts = (if sts = [] then [] else sts @ rounds f k (concat (map f sts)))"

definition rep_match ::
  "(mstate \<Rightarrow> mstate list) \<Rightarrow> nat \<Rightarrow> nat option \<Rightarrow> mstate \<Rightarrow> mstate list" where
  "rep_match f lo hi st =
     (case hi of
        None \<Rightarrow> rounds f (length (snd st)) (iter f lo [st])
      | Some h \<Rightarrow> rounds f (h - lo) (iter f lo [st]))"

fun rmatch :: "bool \<Rightarrow> regex \<Rightarrow> mstate \<Rightarrow> mstate list" where
  "rmatch ic (Str s) st = str_match ic s st"
| "rmatch ic (Cls neg as) st =
     (case snd st of
        [] \<Rightarrow> []
      | c # cs \<Rightarrow> (if list_ex (\<lambda>a. atom_match ic a c) as \<noteq> neg then [(Some c, cs)] else []))"
| "rmatch ic Dot st =
     (case snd st of
        [] \<Rightarrow> []
      | c # cs \<Rightarrow> (if is_line_terminator c then [] else [(Some c, cs)]))"
| "rmatch ic Bol st = (if fst st = None then [st] else [])"
| "rmatch ic Eol st = (if snd st = [] then [st] else [])"
| "rmatch ic Wordb st = (if word_before st \<noteq> word_after st then [st] else [])"
| "rmatch ic (Seq r1 r2) st = concat (map (rmatch ic r2) (rmatch ic r1 st))"
| "rmatch ic (Alt r1 r2) st = rmatch ic r1 st @ rmatch ic r2 st"
| "rmatch ic (Rep lo hi r) st = rep_match (\<lambda>s. rmatch ic r s) lo hi st"

text \<open>A match may start at any position of the input, from the left.\<close>

fun search :: "bool \<Rightarrow> regex \<Rightarrow> code_unit option \<Rightarrow> jsstring \<Rightarrow> bool" where
  "search ic r p [] = (rmatch ic r (p, []) \<noteq> [])"
| "search ic r p (c # cs) = (rmatch ic r (p, c # cs) \<noteq> [] \<or> search ic r (Some c) cs)"

text \<open>A regular-expression literal is its expression and its \<^verbatim>\<open>i\<close> flag.\<close>

record regexp =
  expr :: regex
  ignoreCase :: bool

definition test :: "regexp \<Rightarrow> jsstring \<Rightarrow> bool" where
  "test re s = search (ignoreCase re) (expr re) None s"

subsection \<open>Notation for the literals of the source\<close>

definition lit :: "string \<Rightarrow> regex" where
  "lit s = Str (js s)"

fun alts :: "regex list \<Rightarrow> regex" where
  "alts [] = Str []"
| "alts [r] = r"
| "alts (r # rs) = Alt r (alts rs)"

fun seqs :: "regex list \<Rightarrow> regex" where
  "seqs [] = Str []"
| "seqs [r] = r"
| "seqs (r # rs) = Seq r (seqs rs)"

definition words :: "string list \<Rightarrow> regex" where
  "words ws = alts (map lit ws)"

definition any_star :: regex where
  "any_star = Rep 0 None Dot"

definition opt :: "regex \<Rightarrow> regex" where
  "opt r = Rep 0 (Some 1) r"

definition one_of :: "string \<Rightarrow> regex" where
  "one_of s = Cls False (map Ch (js s))"

definition re_i :: "regex \<Rightarrow> regexp" where
  "re_i r = \<lparr>expr = r, ignoreCase = True\<rparr>"

definition re_cs :: "regex \<Rightarrow> regexp" where
  "re_cs r = \<lparr>expr = r, ignoreCase = False\<rparr>"


section \<open>The rule tables\<close>

datatype ctype = Url | Email | Sms

record rule =
  pattern :: regexp
  reason :: string
  weight :: rat

definition mk_rule :: "regexp \<Rightarrow> string \<Rightarrow> rat \<Rightarrow> rule" where
  "mk_rule p r w = \<lparr>pattern = p, reason = r, weight = w\<rparr>"

definition free_tld :: regex where
  "free_tld = words [''tk'', ''ml'', ''ga'', ''cf'']"

definition digits_1_3 :: regex where
  "digits_1_3 = Rep 1 (Some 3) (Cls False [Rng 48 57])"

text \<open>The Cyrillic range, the Greek letters and the Cyrillic look-alikes of the homograph patterns.\<close>

definition cyrillic_range :: regex where
  "cyrillic_range = Cls False [Rng 1072 1103]"

definition greek_letters :: regex where
  "greek_letters = Cls False (map Ch
     [945, 946, 947, 948, 949, 950, 951, 952, 953, 954, 955, 956, 957, 958, 959, 960, 961,
      963, 964, 965, 966, 967, 968, 969])"

definition cyrillic_lookalikes :: regex where
  "cyrillic_lookalikes = Cls False (map Ch [1072, 1077, 1086, 1088, 1089, 1091, 1082, 1093])"

definition fraudPatterns_url :: "rule list" where
  "fraudPatterns_url =
    [mk_rule (re_i (words [''bit.ly'', ''tinyurl'', ''t.co'', ''goo.gl'', ''short.link'', ''is.gd'',
         ''ow.ly'', ''buff.ly'']))
       ''Shortened URL detected'' (7/10),
     mk_rule (re_i (alts [lit ''urgent'', lit ''verify'', lit ''suspended'',
         seqs [lit ''expire'', opt (lit ''s'')], lit ''immediate'', lit ''asap'', lit ''now'',
         lit ''today'', seqs [lit ''24'', any_star, lit ''hour'', opt (lit ''s'')]]))
       ''Creates false urgency'' (8/10),
     mk_rule (re_i (words [''winner'', ''congratulations'', ''lottery'', ''prize'', ''selected'',
         ''won'', ''claim'', ''reward'']))
       ''Prize/lottery scam indicators'' (9/10),
     mk_rule (re_i (words [''login'', ''signin'', ''account'', ''bank'', ''paypal'', ''amazon'',
         ''apple'', ''microsoft'', ''google'', ''verify'', ''update'', ''confirm'']))
       ''Credential harvesting attempt'' (6/10),
     mk_rule (re_cs (seqs [digits_1_3, lit ''.'', digits_1_3, lit ''.'', digits_1_3, lit ''.'',
         digits_1_3]))
       ''IP address instead of domain'' (95/100),
     mk_rule (re_i (alts [seqs [lit ''secure-'', any_star, lit ''.'', free_tld],
         seqs [any_star, lit ''-secure.'', free_tld],
         seqs [lit ''verify'', any_star, lit ''.'', free_tld]]))
       ''Suspicious domain pattern with free TLD'' (9/10),
     mk_rule (re_i (alts [seqs [lit ''payp'', one_of ''a4'', lit ''l''],
         seqs [lit ''g'', one_of ''o0'', one_of ''o0'', lit ''gle''],
         seqs [lit ''micr'', one_of ''o0'', lit ''s'', one_of ''o0'', lit ''ft''],
         seqs [one_of ''a4'', lit ''m'', one_of ''a4'', lit ''z'', one_of ''o0'', lit ''n''],
         seqs [one_of ''a4'', lit ''pple''],
         seqs [lit ''f'', one_of ''a4'', lit ''ceb'', one_of ''o0'', one_of ''o0'', lit ''k''],
         seqs [lit ''tw'', one_of ''i1'', lit ''tter''],
         seqs [lit ''netfl'', one_of ''i1'', lit ''x'']]))
       ''Possible brand impersonation/typosquatting'' (85/100),
     mk_rule (re_i (seqs [one_of ''?&'',
         words [''account'', ''login'', ''verify'', ''update'', ''confirm'', ''suspend'', ''lock'',
           ''expire'', ''urgent''],
         lit ''='']))
       ''Suspicious URL parameters'' (7/10),
     mk_rule (re_i (alts [lit ''xn--'', cyrillic_range, greek_letters, cyrillic_lookalikes]))
       ''Possible homograph/character substitution attack'' (95/100),
     mk_rule (re_i (seqs [lit ''.'',
         words [''exe'', ''bat'', ''scr'', ''cmd'', ''pif'', ''com'', ''jar'', ''zip'', ''rar'', ''dmg'',
           ''apk'', ''deb'', ''rpm''],
         Alt (one_of ''?#'') Eol]))
       ''Suspicious executable file type'' (8/10)]"

definition fraudPatterns_email :: "rule list" where
  "fraudPatterns_email =
    [mk_rule (re_i (alts [lit ''urgent'', lit ''immediate'', seqs [lit ''expire'', opt (lit ''s'')],
         lit ''suspend'', lit ''asap'', seqs [lit ''act'', any_star, lit ''now''],
         seqs [lit ''respond'', any_star, lit ''within''],
         seqs [lit ''final'', any_star, lit ''notice''],
         seqs [lit ''last'', any_star, lit ''chance'']]))
       ''Creates false urgency'' (8/10),
     mk_rule (re_i (alts [seqs [lit ''click'', any_star, lit ''here''],
         seqs [lit ''download'', any_star, lit ''now''],
         seqs [lit ''verify'', any_star, lit ''now''],
         seqs [lit ''update'', any_star, lit ''now''],
         seqs [lit ''confirm'', any_star, lit ''now''],
         seqs [lit ''access'', any_star, lit ''now'']]))
       ''Generic call-to-action'' (7/10),
     mk_rule (re_i (words [''congratulations'', ''winner'', ''selected'', ''lottery'', ''prize'',
         ''won'', ''claim'', ''reward'', ''contest'', ''drawing'']))
       ''Prize/lottery scam indicators'' (95/100),
     mk_rule (re_i (alts [lit ''prince'', lit ''inheritance'', lit ''million'', lit ''billion'',
         seqs [lit ''dollar'', opt (lit ''s'')], lit ''deceased'', lit ''beneficiary'',
         lit ''estate'', lit ''diplomat'', lit ''barrister'', lit ''solicitor'']))
       ''Advance fee fraud (419 scam) indicators'' (95/100),
     mk_rule (re_i (words [''suspended'', ''terminated'', ''blocked'', ''locked'', ''deactivated'',
         ''compromised'', ''hacked'', ''unauthorized'']))
       ''Account threat tactics'' (85/100),
     mk_rule (re_i (alts [seqs [lit ''tax'', any_star, lit ''refund''], lit ''irs'', lit ''fbi'',
         seqs [lit ''homeland'', any_star, lit ''security''], lit ''customs'', lit ''immigration'',
         seqs [lit ''social'', any_star, lit ''security''], lit ''medicare'', lit ''stimulus'']))
       ''Government authority impersonation'' (9/10),
     mk_rule (re_i (seqs [lit ''dear'', Rep 1 None (Cls False [Spc]),
         words [''sir'', ''madam'', ''friend'', ''customer'', ''valued'', ''esteemed'',
           ''recipient'']]))
       ''Generic greeting typical of mass scams'' (6/10),
     mk_rule (re_i (alts [lit ''beneficiary'', seqs [lit ''transfer'', any_star, lit ''funds''],
         seqs [lit ''claim'', any_star, lit ''money''],
         seqs [lit ''wire'', any_star, lit ''transfer''],
         seqs [lit ''bank'', any_star, lit ''details''],
         seqs [lit ''routing'', any_star, lit ''number''],
         seqs [lit ''account'', any_star, lit ''number'']]))
       ''Financial fraud language'' (85/100),
     mk_rule (re_i (alts [seqs [lit ''contact'', any_star, lit ''immediately''],
         seqs [lit ''respond'', any_star, lit ''within''],
         seqs [lit ''act'', any_star, lit ''now''],
         seqs [lit ''time'', any_star, lit ''sensitive''],
         seqs [lit ''expire'', any_star, lit ''soon''],
         seqs [lit ''final'', any_star, lit ''warning'']]))
       ''High-pressure tactics'' (8/10),
     mk_rule (re_i (alts [seqs [lit ''western'', any_star, lit ''union''],
         seqs [lit ''money'', any_star, lit ''gram''], lit ''bitcoin'', lit ''cryptocurrency'',
         seqs [lit ''gift'', any_star, lit ''card''],
         seqs [lit ''itunes'', any_star, lit ''card''],
         seqs [lit ''steam'', any_star, lit ''card''],
         seqs [lit ''prepaid'', any_star, lit ''card'']]))
       ''Suspicious payment methods'' (9/10),
     mk_rule (re_i (alts [lit ''confidential'', lit ''secret'',
         seqs [lit ''private'', any_star, lit ''matter''], lit ''classified'', lit ''discreet'',
         seqs [lit ''between'', any_star, lit ''us''],
         seqs [lit ''do'', any_star, lit ''not'', any_star, lit ''tell'']]))
       ''Secrecy tactics to avoid scrutiny'' (7/10),
     mk_rule (re_i (seqs [Wordb,
         alts [lit ''recieve'', lit ''occured'', lit ''seperate'', lit ''definately'', lit ''alot'',
           lit ''loose'', lit ''there'', lit ''their'', lit ''your'',
           seqs [lit ''you'', Str [39], lit ''re'']],
         Wordb]))
       ''Common spelling errors in scam emails'' (4/10),
     mk_rule (re_i (alts [lit ''noreply'', lit ''no-reply'', lit ''donotreply'', lit ''notification'',
         lit ''alert'', lit ''security'', lit ''admin'',
         seqs [lit ''support'', any_star, lit ''@'',
           words [''gmail'', ''yahoo'', ''hotmail'', ''outlook'']]]))
       ''Suspicious sender using free email service'' (6/10),
     mk_rule (re_i (words [''love'', ''romance'', ''relationship'', ''dating'', ''meet'',
         ''attractive'', ''photos'', ''lonely'', ''widow'', ''military'', ''overseas'']))
       ''Romance scam indicators'' (7/10),
     mk_rule (re_i (alts [seqs [lit ''computer'', any_star, lit ''infected''],
         seqs [lit ''virus'', any_star, lit ''detected''], lit ''malware'',
         seqs [lit ''windows'', any_star, lit ''license''],
         seqs [lit ''microsoft'', any_star, lit ''support''],
         seqs [lit ''apple'', any_star, lit ''support'']]))
       ''Tech support scam indicators'' (8/10)]"

definition fraudPatterns_sms :: "rule list" where
  "fraudPatterns_sms =
    [mk_rule (re_i (words [''congratulations'', ''winner'', ''selected'', ''won'', ''prize'',
         ''reward'', ''contest'', ''drawing'', ''lottery'']))
       ''Prize scam indicators'' (95/100),
     mk_rule (re_i (words [''click'', ''link'', ''http'', ''bit.ly'', ''tinyurl'', ''download'',
         ''install'', ''app'']))
       ''Suspicious link request'' (8/10),
     mk_rule (re_i (alts [lit ''urgent'', lit ''expire'', lit ''suspend'', lit ''immediate'',
         lit ''asap'', lit ''now'', lit ''today'',
         seqs [lit ''24'', any_star, lit ''hour'', opt (lit ''s'')], lit ''final'']))
       ''Creates false urgency'' (8/10),
     mk_rule (re_i (words [''free'', ''offer'', ''deal'', ''discount'', ''save'', ''50%'', ''75%'',
         ''90%'', ''cash'', ''money'', ''gift'']))
       ''Too-good-to-be-true offers'' (6/10),
     mk_rule (re_i (words [''verify'', ''confirm'', ''update'', ''validate'', ''authenticate'',
         ''secure'', ''login'', ''password'']))
       ''Information harvesting attempt'' (7/10),
     mk_rule (re_i (alts [lit ''subscription'', lit ''premium'', lit ''charged'', lit ''billing'',
         lit ''cancel'', lit ''unsubscribe'', seqs [lit ''stop'', any_star, lit ''reply'']]))
       ''Subscription scam pattern'' (7/10),
     mk_rule (re_i (alts [lit ''bank'', lit ''card'', lit ''account'', lit ''payment'',
         lit ''transaction'', lit ''fraud'', seqs [lit ''security'', any_star, lit ''alert''],
         lit ''suspended'']))
       ''Financial institution impersonation'' (8/10),
     mk_rule (re_i (alts [lit ''package'', lit ''delivery'', lit ''shipment'', lit ''fedex'',
         lit ''ups'', lit ''dhl'', lit ''postal'', lit ''redelivery'',
         seqs [lit ''failed'', any_star, lit ''delivery'']]))
       ''Package delivery scam'' (7/10),
     mk_rule (re_i (alts [lit ''tax'', lit ''irs'', lit ''refund'', lit ''stimulus'',
         lit ''government'', seqs [lit ''social'', any_star, lit ''security''], lit ''medicare'',
         lit ''benefits'']))
       ''Government impersonation'' (9/10),
     mk_rule (re_i (alts [lit ''virus'', lit ''malware'', lit ''infected'',
         seqs [lit ''security'', any_star, lit ''breach''], lit ''microsoft'', lit ''apple'',
         lit ''google'', seqs [lit ''tech'', any_star, lit ''support'']]))
       ''Tech support scam'' (8/10),
     mk_rule (re_i (words [''dating'', ''lonely'', ''photos'', ''meet'', ''relationship'', ''love'',
         ''attractive'', ''military'', ''overseas'']))
       ''Romance/social engineering scam'' (7/10),
     mk_rule (re_i (alts [lit ''bitcoin'', lit ''crypto'', lit ''investment'', lit ''trading'',
         lit ''profit'', lit ''roi'', seqs [lit ''guaranteed'', any_star, lit ''returns''],
         seqs [lit ''make'', any_star, lit ''money'']]))
       ''Cryptocurrency/investment scam'' (8/10)]"

fun fraudPatterns :: "ctype \<Rightarrow> rule list" where
  "fraudPatterns Url = fraudPatterns_url"
| "fraudPatterns Email = fraudPatterns_email"
| "fraudPatterns Sms = fraudPatterns_sms"

subsection \<open>Safe-content indicators\<close>

definition host_label :: regex where
  "host_label = Rep 1 None (Cls False [Rng 97 122, Rng 48 57, Ch 45])"

definition safeIndicators_url :: "regexp list" where
  "safeIndicators_url =
    [re_i (seqs [Bol, lit ''https://'', opt (lit ''www.''),
       words [''google'', ''microsoft'', ''apple'', ''amazon'', ''github'', ''stackoverflow'',
         ''wikipedia'', ''mozilla'', ''linkedin'', ''youtube'', ''twitter'', ''facebook'',
         ''instagram''],
       lit ''.com'']),
     re_i (seqs [Bol, lit ''https://'', host_label, lit ''.'', words [''edu'', ''gov'', ''org''],
       Alt Eol (lit ''/'')]),
     re_i (seqs [Bol, lit ''https://'', host_label, lit ''.'', words [''com'', ''net'', ''org''],
       lit ''/'', Rep 0 None (Cls False [Rng 97 122, Rng 48 57, Ch 45, Ch 47]), lit ''.'',
       words [''pdf'', ''doc'', ''docx'', ''jpg'', ''jpeg'', ''png'', ''gif''], Eol])]"

definition safeIndicators_email :: "regexp list" where
  "safeIndicators_email =
    [re_i (seqs [lit ''from:'', any_star, lit ''@'',
       words [''gmail'', ''yahoo'', ''hotmail'', ''outlook''], lit ''.com'', any_star,
       lit ''subject:'', Rep 0 None (Cls False [Spc]),
       words [''meeting'', ''project'', ''reminder'', ''invoice'', ''receipt'', ''newsletter'']]),
     re_i (alts [lit ''unsubscribe'', seqs [lit ''privacy'', any_star, lit ''policy''],
       seqs [lit ''terms'', any_star, lit ''of'', any_star, lit ''service''],
       seqs [lit ''customer'', any_star, lit ''service'']]),
     re_i (alts [seqs [lit ''thank'', any_star, lit ''you'', any_star, lit ''for'', any_star,
         lit ''your'', any_star, lit ''order''],
       seqs [lit ''your'', any_star, lit ''order'', any_star, lit ''has'', any_star, lit ''been'',
         any_star, lit ''shipped''],
       seqs [lit ''delivery'', any_star, lit ''confirmation'']])]"

definition safeIndicators_sms :: "regexp list" where
  "safeIndicators_sms =
    [re_i (alts [seqs [lit ''your'', any_star, lit ''appointment''],
       seqs [lit ''meeting'', any_star, lit ''reminder''],
       seqs [lit ''delivery'', any_star, lit ''notification''],
       seqs [lit ''order'', any_star, lit ''confirmation'']]),
     re_i (seqs [lit ''verification'', any_star, lit ''code'', any_star,
       Rep 4 (Some 6) (Cls False [Dig]), any_star, lit ''expires'', any_star, lit ''in'', any_star,
       Rep 1 None (Cls False [Dig]), any_star, lit ''minutes'']),
     re_i (alts [seqs [lit ''reply'', any_star, lit ''stop'', any_star, lit ''to'', any_star,
         lit ''unsubscribe''],
       seqs [lit ''text'', any_star, lit ''stop'', any_star, lit ''to'', any_star, lit ''opt'',
         any_star, lit ''out'']])]"

fun safeIndicators :: "ctype \<Rightarrow> regexp list" where
  "safeIndicators Url = safeIndicators_url"
| "safeIndicators Email = safeIndicators_email"
| "safeIndicators Sms = safeIndicators_sms"


section \<open>The evaluation\<close>

text \<open>
  Numbers are modelled as exact rationals: \<open>7/10\<close> is the weight written \<^verbatim>\<open>0.7\<close>.
  The rounding of IEEE doubles is not part of the model.

  The running total and the list of reasons, which the source keeps in the variables
  \<^verbatim>\<open>totalWeight\<close> and \<^verbatim>\<open>matchedReasons\<close>, are threaded through the checks as
  a pair. \<open>push\<close> is the pair of statements \<^verbatim>\<open>totalWeight += w; matchedReasons.push(r)\<close>.
\<close>

type_synonym acc = "rat \<times> string list"

definition push :: "rat \<Rightarrow> string \<Rightarrow> acc \<Rightarrow> acc" where
  "push w r a = (fst a + w, snd a @ [r])"

definition isSafeContent :: "ctype \<Rightarrow> jsstring \<Rightarrow> bool" where
  "isSafeContent type content =
     list_ex (\<lambda>pattern. test pattern (toLowerCase content)) (safeIndicators type)"

definition safeContentMultiplier :: "ctype \<Rightarrow> jsstring \<Rightarrow> rat" where
  "safeContentMultiplier type content = (if isSafeContent type content then 6/10 else 1)"

text \<open>The loop \<^verbatim>\<open>patterns.forEach\<close> over the rule table of the category.\<close>

fun scan_patterns :: "rat \<Rightarrow> jsstring \<Rightarrow> rule list \<Rightarrow> acc \<Rightarrow> acc" where
  "scan_patterns mult content [] a = a"
| "scan_patterns mult content (r # rs) a =
     scan_patterns mult content rs
       (if test (pattern r) content then push (weight r * mult) (reason r) a else a)"

subsection \<open>Structural checks of a URL\<close>

text \<open>
  The constructor \<^verbatim>\<open>new URL\<close> belongs to the platform, not to this program. It is a
  parameter of the model: a function from the text to the parsed URL, \<open>None\<close> where the
  constructor throws. The checks read five fields of the parsed URL.
\<close>

record url =
  hostname :: jsstring
  port :: jsstring
  protocol :: jsstring
  href :: jsstring
  pathname :: jsstring

type_synonym url_parser = "jsstring \<Rightarrow> url option"

definition suspiciousTlds :: "jsstring list" where
  "suspiciousTlds = map js [''.tk'', ''.ml'', ''.ga'', ''.cf'', ''.pw'', ''.top'', ''.work'',
     ''.click'', ''.download'', ''.review'']"

definition highRiskTlds :: "jsstring list" where
  "highRiskTlds = map js [''.tk'', ''.ml'', ''.ga'', ''.cf'']"

definition suspiciousChars :: regexp where
  "suspiciousChars = re_i (alts [cyrillic_range, greek_letters, cyrillic_lookalikes,
     Cls False (map Ch [224, 225, 226, 227, 228, 229, 230, 231, 232, 233, 234, 235, 236, 237,
       238, 239, 240, 241, 242, 243, 244, 245, 246])])"

definition sensitive_keywords :: regexp where
  "sensitive_keywords = re_i (words [''login'', ''bank'', ''secure'', ''account'', ''payment''])"

definition suspicious_path :: regexp where
  "suspicious_path = re_i (seqs [lit ''/'',
     words [''admin'', ''wp-admin'', ''login'', ''signin'', ''secure'', ''verify'', ''update'',
       ''confirm''],
     lit ''.php''])"

definition url_structure :: "url \<Rightarrow> acc \<Rightarrow> acc" where
  "url_structure u a0 =
     (let a1 = (if list_ex (\<lambda>tld. endsWith (hostname u) tld) highRiskTlds
                then push (9/10) ''High-risk top-level domain'' a0
                else if list_ex (\<lambda>tld. endsWith (hostname u) tld) suspiciousTlds
                then push (7/10) ''Suspicious top-level domain'' a0
                else a0);
          subdomainCount = length (split_on 46 (hostname u));
          a2 = (if subdomainCount > 4 then push (7/10) ''Excessive subdomain nesting'' a1
                else if subdomainCount > 3 then push (4/10) ''Multiple subdomains detected'' a1
                else a1);
          a3 = (if test suspiciousChars (hostname u)
                then push (95/100) ''Possible homograph/character substitution attack'' a2
                else a2);
          a4 = (if port u \<noteq> [] \<and> port u \<noteq> js ''80'' \<and> port u \<noteq> js ''443''
                then push (6/10) ''Non-standard port number detected'' a3
                else a3);
          a5 = (if protocol u = js ''http:'' \<and> test sensitive_keywords (href u)
                then push (8/10) ''Insecure HTTP protocol for sensitive content'' a4
                else a4);
          a6 = (if length (href u) > 200 then push (5/10) ''Unusually long URL'' a5 else a5);
          a7 = (if test suspicious_path (pathname u)
                then push (7/10) ''Suspicious file path detected'' a6
                else a6)
      in a7)"

text \<open>
  The \<^verbatim>\<open>try\<close> block: only the constructor can throw, and it is the first statement,
  so the \<^verbatim>\<open>catch\<close> branch starts from the accumulator as the rule loop left it.
\<close>

definition url_text :: "jsstring \<Rightarrow> jsstring" where
  "url_text content = (if startsWith content (js ''http'') then content else js ''https://'' @ content)"

definition url_checks :: "url_parser \<Rightarrow> jsstring \<Rightarrow> acc \<Rightarrow> acc" where
  "url_checks parseURL content a =
     (case parseURL (url_text content) of
        None \<Rightarrow> push (8/10) ''Malformed URL structure'' a
      | Some u \<Rightarrow> url_structure u a)"

subsection \<open>Checks of an email and of an SMS\<close>

definition capital_run :: regexp where
  "capital_run = re_cs (Rep 10 None (Cls False [Rng 65 90]))"

definition exclamation_run :: regexp where
  "exclamation_run = re_cs (Rep 3 None (lit ''!''))"

definition suspicious_mail_domain :: regexp where
  "suspicious_mail_domain = re_i (seqs [lit ''@'', host_label, lit ''.'',
     words [''tk'', ''ml'', ''ga'', ''cf'', ''ru'', ''cn'']])"

definition amount_digits :: regex where
  "amount_digits = Rep 1 None (Cls False [Dig, Ch 44])"

definition money_amount :: regexp where
  "money_amount = re_i (alts [seqs [lit ''$'', amount_digits], seqs [Str [163], amount_digits],
     seqs [Str [8364], amount_digits],
     seqs [Rep 1 None (Cls False [Dig]), Rep 0 None (Cls False [Spc]),
       words [''million'', ''billion'', ''thousand'']]])"

definition email_checks :: "jsstring \<Rightarrow> acc \<Rightarrow> acc" where
  "email_checks content a0 =
     (let a1 = (if test capital_run content
                then push (4/10) ''Excessive use of capital letters'' a0 else a0);
          a2 = (if test exclamation_run content
                then push (3/10) ''Excessive punctuation usage'' a1 else a1);
          a3 = (if test suspicious_mail_domain content
                then push (7/10) ''Suspicious email domain in content'' a2 else a2);
          a4 = (if test money_amount content
                then push (6/10) ''Large monetary amounts mentioned'' a3 else a3)
      in a4)"

definition sender_number :: regexp where
  "sender_number = re_i (seqs [lit ''from:'', Rep 0 None (Cls False [Spc]),
     Rep 5 (Some 6) (Cls False [Dig]), Cls True [Rng 48 57]])"

definition reply_number :: regexp where
  "reply_number = re_cs (seqs [lit ''reply'', any_star, Rep 5 (Some 5) (Cls False [Dig])])"

definition sms_checks :: "jsstring \<Rightarrow> acc \<Rightarrow> acc" where
  "sms_checks content a0 =
     (let a1 = (if length content < 50 \<and> length (snd a0) > 0
                then push (3/10) ''Short message with suspicious content'' a0 else a0);
          a2 = (if test sender_number content \<or> test reply_number content
                then push (6/10) ''Suspicious sender number pattern'' a1 else a1)
      in a2)"

subsection \<open>The function \<^verbatim>\<open>analyzeContent\<close>\<close>

text \<open>The three category blocks that follow the rule loop.\<close>

definition extra_checks :: "url_parser \<Rightarrow> ctype \<Rightarrow> jsstring \<Rightarrow> acc \<Rightarrow> acc" where
  "extra_checks parseURL type content a0 =
     (let a1 = (if type = Url then url_checks parseURL content a0 else a0);
          a2 = (if type = Email then email_checks content a1 else a1);
          a3 = (if type = Sms then sms_checks content a2 else a2)
      in a3)"

definition rule_scan :: "ctype \<Rightarrow> jsstring \<Rightarrow> acc" where
  "rule_scan type content =
     scan_patterns (safeContentMultiplier type content) content (fraudPatterns type) (0, [])"

text \<open>The accumulator when the function reaches the test for an empty list of reasons.\<close>

definition score :: "url_parser \<Rightarrow> ctype \<Rightarrow> jsstring \<Rightarrow> acc" where
  "score parseURL type content = extra_checks parseURL type content (rule_scan type content)"

definition totalWeight :: "url_parser \<Rightarrow> ctype \<Rightarrow> jsstring \<Rightarrow> rat" where
  "totalWeight parseURL type content = fst (score parseURL type content)"

definition matchedReasons :: "url_parser \<Rightarrow> ctype \<Rightarrow> jsstring \<Rightarrow> string list" where
  "matchedReasons parseURL type content = snd (score parseURL type content)"

datatype threat_level = Low | Medium | High

text \<open>
  The identifier and the time stamp of a result come from the clock and the random
  generator of the runtime; an evaluation receives what they return as \<open>stamp\<close>.
\<close>

record stamp =
  date_now :: nat
  math_random :: rat
  new_date :: nat

record fraud_alert =
  alert_id :: "ctype \<times> nat \<times> rat"
  type :: ctype
  content :: jsstring
  threat :: threat_level
  confidence :: rat
  reasons :: "string list"
  timestamp :: nat
  blocked :: bool

definition confidence_of :: "rat \<Rightarrow> string list \<Rightarrow> rat" where
  "confidence_of tw rs =
     (let baseConfidence = min (tw / 3) (98/100);
          patternBonus = min (of_nat (length rs) * (5/100)) (15/100)
      in min (baseConfidence + patternBonus) (99/100))"

definition make_alert ::
  "stamp \<Rightarrow> ctype \<Rightarrow> jsstring \<Rightarrow> threat_level \<Rightarrow> rat \<Rightarrow> string list \<Rightarrow> fraud_alert" where
  "make_alert st ty c th tw rs =
     (let conf = confidence_of tw rs
      in \<lparr>alert_id = (ty, date_now st, math_random st),
          type = ty,
          content = take 300 c,
          threat = th,
          confidence = conf,
          reasons = take 10 rs,
          timestamp = new_date st,
          blocked = (th = High \<or> (th = Medium \<and> conf > 75/100))\<rparr>)"

definition analyzeContent ::
  "bool \<Rightarrow> url_parser \<Rightarrow> stamp \<Rightarrow> ctype \<Rightarrow> jsstring \<Rightarrow> fraud_alert option" where
  "analyzeContent isEnabled parseURL st ty c =
     (if \<not> isEnabled \<or> trim c = [] then None
      else
        (let tw = totalWeight parseURL ty c;
             rs = matchedReasons parseURL ty c
         in if length rs = 0 then None
            else if tw \<ge> 2 then Some (make_alert st ty c High tw rs)
            else if tw \<ge> 12/10 then Some (make_alert st ty c Medium tw rs)
            else if tw \<ge> 6/10 then Some (make_alert st ty c Low tw rs)
            else None))"

section \<open>The alert history\<close>

text \<open>
  The component keeps the recent alerts, the alert shown in the warning popup and two
  counters. The three callers of \<^verbatim>\<open>analyzeContent\<close> are the click handler, the
  observer of added page content, and the manual test. Each of them stores a result
  with \<^verbatim>\<open>setAlerts(prev => [alert, ...prev.slice(0, 9)])\<close>.
\<close>

record ui_state =
  alerts :: "fraud_alert list"
  showWarningPopup :: "fraud_alert option"
  blockedCount :: nat
  interceptedAttempts :: nat

definition initial_state :: ui_state where
  "initial_state = \<lparr>alerts = [], showWarningPopup = None, blockedCount = 0,
     interceptedAttempts = 0\<rparr>"

definition add_alert :: "fraud_alert \<Rightarrow> fraud_alert list \<Rightarrow> fraud_alert list" where
  "add_alert a prev = a # take 9 prev"

definition record_alert :: "fraud_alert \<Rightarrow> ui_state \<Rightarrow> ui_state" where
  "record_alert a s =
     s\<lparr>interceptedAttempts := interceptedAttempts s + 1,
       alerts := add_alert a (alerts s),
       blockedCount := (if blocked a then blockedCount s + 1 else blockedCount s),
       showWarningPopup := Some a\<rparr>"

text \<open>
  \<^verbatim>\<open>handleClick\<close>: the handler is installed only while the engine is enabled; it
  evaluates the address of the clicked link, when the click was on a link with one.
\<close>

definition handleClick ::
  "bool \<Rightarrow> url_parser \<Rightarrow> stamp \<Rightarrow> jsstring option \<Rightarrow> ui_state \<Rightarrow> ui_state" where
  "handleClick isEnabled parseURL st link s =
     (if \<not> isEnabled then s
      else case link of
        None \<Rightarrow> s
      | Some link_href \<Rightarrow>
          (if link_href = [] then s
           else case analyzeContent isEnabled parseURL st Url link_href of
             None \<Rightarrow> s
           | Some a \<Rightarrow> record_alert a s))"

definition mail_address :: regexp where
  "mail_address = re_cs (seqs [lit ''@'', any_star, lit ''.'', words [''com'', ''org'', ''net'']])"

text \<open>The mutation observer, for the text of one added element.\<close>

definition observe_node ::
  "bool \<Rightarrow> url_parser \<Rightarrow> stamp \<Rightarrow> jsstring \<Rightarrow> ui_state \<Rightarrow> ui_state" where
  "observe_node isEnabled parseURL st emailContent s =
     (if \<not> isEnabled then s
      else if length emailContent > 50 \<and> test mail_address emailContent
      then case analyzeContent isEnabled parseURL st Email emailContent of
             None \<Rightarrow> s
           | Some a \<Rightarrow>
               s\<lparr>alerts := add_alert a (alerts s),
                 showWarningPopup := (if threat a = High then Some a else showWarningPopup s)\<rparr>
      else s)"

definition handleManualTest ::
  "bool \<Rightarrow> url_parser \<Rightarrow> stamp \<Rightarrow> ctype \<Rightarrow> jsstring \<Rightarrow> ui_state \<Rightarrow> ui_state" where
  "handleManualTest isEnabled parseURL st testType testContent s =
     (if trim testContent = [] then s
      else case analyzeContent isEnabled parseURL st testType testContent of
        None \<Rightarrow> s
      | Some a \<Rightarrow> record_alert a s)"

definition clearAlerts :: "ui_state \<Rightarrow> ui_state" where
  "clearAlerts s = s\<lparr>alerts := [], blockedCount := 0, interceptedAttempts := 0\<rparr>"

text \<open>A sequence of evaluations, each with the stamp the runtime gave it.\<close>

datatype evaluation =
    Click stamp "jsstring option"
  | Observed stamp jsstring
  | ManualTest stamp ctype jsstring

fun perform :: "bool \<Rightarrow> url_parser \<Rightarrow> evaluation \<Rightarrow> ui_state \<Rightarrow> ui_state" where
  "perform en parseURL (Click st link) s = handleClick en parseURL st link s"
| "perform en parseURL (Observed st text) s = observe_node en parseURL st text s"
| "perform en parseURL (ManualTest st ty c) s = handleManualTest en parseURL st ty c s"

fun run :: "bool \<Rightarrow> url_parser \<Rightarrow> evaluation list \<Rightarrow> ui_state \<Rightarrow> ui_state" where
  "run en parseURL [] s = s"
| "run en parseURL (e # es) s = run en parseURL es (perform en parseURL e s)"

text \<open>The result that an evaluation of the sequence hands to the history, if any.\<close>

fun outcome :: "bool \<Rightarrow> url_parser \<Rightarrow> evaluation \<Rightarrow> fraud_alert option" where
  "outcome en parseURL (Click st link) =
     (if \<not> en then None
      else case link of
        None \<Rightarrow> None
      | Some link_href \<Rightarrow>
          (if link_href = [] then None else analyzeContent en parseURL st Url link_href))"
| "outcome en parseURL (Observed st text) =
     (if \<not> en then None
      else if length text > 50 \<and> test mail_address text
      then analyzeContent en parseURL st Email text
      else None)"
| "outcome en parseURL (ManualTest st ty c) =
     (if trim c = [] then None else analyzeContent en parseURL st ty c)"

definition outcomes :: "bool \<Rightarrow> url_parser \<Rightarrow> evaluation list \<Rightarrow> fraud_alert list" where
  "outcomes en parseURL es = List.map_filter (outcome en parseURL) es"


section \<open>Quantities of the specification\<close>





text \<open>The order of the outcomes of an evaluation: no result, then the three threat levels.\<close>

fun threat_rank :: "fraud_alert option \<Rightarrow> nat" where
  "threat_rank None = 0"
| "threat_rank (Some a) = (case threat a of Low \<Rightarrow> 1 | Medium \<Rightarrow> 2 | High \<Rightarrow> 3)"

text \<open>An expression without the assertions \<^verbatim>\<open>^\<close>, \<^verbatim>\<open>$\<close> and \<^verbatim>\<open>\b\<close>.\<close>

fun anchor_free :: "regex \<Rightarrow> bool" where
  "anchor_free Bol = False"
| "anchor_free Eol = False"
| "anchor_free Wordb = False"
| "anchor_free (Seq r1 r2) = (anchor_free r1 \<and> anchor_free r2)"
| "anchor_free (Alt r1 r2) = (anchor_free r1 \<and> anchor_free r2)"
| "anchor_free (Rep lo hi r) = anchor_free r"
| "anchor_free _ = True"






subsection \<open>Sample inputs\<close>

definition stamp_at :: "nat \<Rightarrow> stamp" where
  "stamp_at n = \<lparr>date_now = n, math_random = 1/2, new_date = n\<rparr>"

text \<open>A constructor that rejects every text, for evaluations that do not parse a URL.\<close>

definition no_url :: url_parser where
  "no_url = (\<lambda>_. None)"



text \<open>Fifteen manual tests of one SMS text, at the times 1 to 15.\<close>

definition fifteen_tests :: "evaluation list" where
  "fifteen_tests = map (\<lambda>n. ManualTest (stamp_at n) Sms (js ''You won''))
     [1, 2, 3, 4, 5, 6, 7, 8, 9, 10, 11, 12, 13, 14, 15]"

section \<open>Evaluation of the model\<close>

text \<open>The case of the printable ASCII code units and of the letters in the classes.\<close>

lemma upper_ascii:
  "upper_unit 32 = 32" "upper_unit 33 = 33" "upper_unit 34 = 34" "upper_unit 35 = 35"
  "upper_unit 36 = 36" "upper_unit 37 = 37" "upper_unit 38 = 38" "upper_unit 39 = 39"
  "upper_unit 40 = 40" "upper_unit 41 = 41" "upper_unit 42 = 42" "upper_unit 43 = 43"
  "upper_unit 44 = 44" "upper_unit 45 = 45" "upper_unit 46 = 46" "upper_unit 47 = 47"
  "upper_unit 48 = 48" "upper_unit 49 = 49" "upper_unit 50 = 50" "upper_unit 51 = 51"
  "upper_unit 52 = 52" "upper_unit 53 = 53" "upper_unit 54 = 54" "upper_unit 55 = 55"
  "upper_unit 56 = 56" "upper_unit 57 = 57" "upper_unit 58 = 58" "upper_unit 59 = 59"
  "upper_unit 60 = 60" "upper_unit 61 = 61" "upper_unit 62 = 62" "upper_unit 63 = 63"
  "upper_unit 64 = 64" "upper_unit 65 = 65" "upper_unit 66 = 66" "upper_unit 67 = 67"
  "upper_unit 68 = 68" "upper_unit 69 = 69" "upper_unit 70 = 70" "upper_unit 71 = 71"
  "upper_unit 72 = 72" "upper_unit 73 = 73" "upper_unit 74 = 74" "upper_unit 75 = 75"
  "upper_unit 76 = 76" "upper_unit 77 = 77" "upper_unit 78 = 78" "upper_unit 79 = 79"
  "upper_unit 80 = 80" "upper_unit 81 = 81" "upper_unit 82 = 82" "upper_unit 83 = 83"
  "upper_unit 84 = 84" "upper_unit 85 = 85" "upper_unit 86 = 86" "upper_unit 87 = 87"
  "upper_unit 88 = 88" "upper_unit 89 = 89" "upper_unit 90 = 90" "upper_unit 91 = 91"
  "upper_unit 92 = 92" "upper_unit 93 = 93" "upper_unit 94 = 94" "upper_unit 95 = 95"
  "upper_unit 96 = 96" "upper_unit 97 = 65" "upper_unit 98 = 66" "upper_unit 99 = 67"
  "upper_unit 100 = 68" "upper_unit 101 = 69" "upper_unit 102 = 70" "upper_unit 103 = 71"
  "upper_unit 104 = 72" "upper_unit 105 = 73" "upper_unit 106 = 74" "upper_unit 107 = 75"
  "upper_unit 108 = 76" "upper_unit 109 = 77" "upper_unit 110 = 78" "upper_unit 111 = 79"
  "upper_unit 112 = 80" "upper_unit 113 = 81" "upper_unit 114 = 82" "upper_unit 115 = 83"
  "upper_unit 116 = 84" "upper_unit 117 = 85" "upper_unit 118 = 86" "upper_unit 119 = 87"
  "upper_unit 120 = 88" "upper_unit 121 = 89" "upper_unit 122 = 90" "upper_unit 123 = 123"
  "upper_unit 124 = 124" "upper_unit 125 = 125" "upper_unit 126 = 126"
  by (simp_all add: upper_unit_def)

lemma lower_ascii:
  "lower_unit 32 = 32" "lower_unit 33 = 33" "lower_unit 34 = 34" "lower_unit 35 = 35"
  "lower_unit 36 = 36" "lower_unit 37 = 37" "lower_unit 38 = 38" "lower_unit 39 = 39"
  "lower_unit 40 = 40" "lower_unit 41 = 41" "lower_unit 42 = 42" "lower_unit 43 = 43"
  "lower_unit 44 = 44" "lower_unit 45 = 45" "lower_unit 46 = 46" "lower_unit 47 = 47"
  "lower_unit 48 = 48" "lower_unit 49 = 49" "lower_unit 50 = 50" "lower_unit 51 = 51"
  "lower_unit 52 = 52" "lower_unit 53 = 53" "lower_unit 54 = 54" "lower_unit 55 = 55"
  "lower_unit 56 = 56" "lower_unit 57 = 57" "lower_unit 58 = 58" "lower_unit 59 = 59"
  "lower_unit 60 = 60" "lower_unit 61 = 61" "lower_unit 62 = 62" "lower_unit 63 = 63"
  "lower_unit 64 = 64" "lower_unit 65 = 97" "lower_unit 66 = 98" "lower_unit 67 = 99"
  "lower_unit 68 = 100" "lower_unit 69 = 101" "lower_unit 70 = 102" "lower_unit 71 = 103"
  "lower_unit 72 = 104" "lower_unit 73 = 105" "lower_unit 74 = 106" "lower_unit 75 = 107"
  "lower_unit 76 = 108" "lower_unit 77 = 109" "lower_unit 78 = 110" "lower_unit 79 = 111"
  "lower_unit 80 = 112" "lower_unit 81 = 113" "lower_unit 82 = 114" "lower_unit 83 = 115"
  "lower_unit 84 = 116" "lower_unit 85 = 117" "lower_unit 86 = 118" "lower_unit 87 = 119"
  "lower_unit 88 = 120" "lower_unit 89 = 121" "lower_unit 90 = 122" "lower_unit 91 = 91"
  "lower_unit 92 = 92" "lower_unit 93 = 93" "lower_unit 94 = 94" "lower_unit 95 = 95"
  "lower_unit 96 = 96" "lower_unit 97 = 97" "lower_unit 98 = 98" "lower_unit 99 = 99"
  "lower_unit 100 = 100" "lower_unit 101 = 101" "lower_unit 102 = 102" "lower_unit 103 = 103"
  "lower_unit 104 = 104" "lower_unit 105 = 105" "lower_unit 106 = 106" "lower_unit 107 = 107"
  "lower_unit 108 = 108" "lower_unit 109 = 109" "lower_unit 110 = 110" "lower_unit 111 = 111"
  "lower_unit 112 = 112" "lower_unit 113 = 113" "lower_unit 114 = 114" "lower_unit 115 = 115"
  "lower_unit 116 = 116" "lower_unit 117 = 117" "lower_unit 118 = 118" "lower_unit 119 = 119"
  "lower_unit 120 = 120" "lower_unit 121 = 121" "lower_unit 122 = 122" "lower_unit 123 = 123"
  "lower_unit 124 = 124" "lower_unit 125 = 125" "lower_unit 126 = 126"
  by (simp_all add: lower_unit_def)

lemma upper_letters:
  "upper_unit 224 = 192" "upper_unit 225 = 193" "upper_unit 226 = 194" "upper_unit 227 = 195"
  "upper_unit 228 = 196" "upper_unit 229 = 197" "upper_unit 230 = 198" "upper_unit 231 = 199"
  "upper_unit 232 = 200" "upper_unit 233 = 201" "upper_unit 234 = 202" "upper_unit 235 = 203"
  "upper_unit 236 = 204" "upper_unit 237 = 205" "upper_unit 238 = 206" "upper_unit 239 = 207"
  "upper_unit 240 = 208" "upper_unit 241 = 209" "upper_unit 242 = 210" "upper_unit 243 = 211"
  "upper_unit 244 = 212" "upper_unit 245 = 213" "upper_unit 246 = 214" "upper_unit 945 = 913"
  "upper_unit 946 = 914" "upper_unit 947 = 915" "upper_unit 948 = 916" "upper_unit 949 = 917"
  "upper_unit 950 = 918" "upper_unit 951 = 919" "upper_unit 952 = 920" "upper_unit 953 = 921"
  "upper_unit 954 = 922" "upper_unit 955 = 923" "upper_unit 956 = 924" "upper_unit 957 = 925"
  "upper_unit 958 = 926" "upper_unit 959 = 927" "upper_unit 960 = 928" "upper_unit 961 = 929"
  "upper_unit 963 = 931" "upper_unit 964 = 932" "upper_unit 965 = 933" "upper_unit 966 = 934"
  "upper_unit 967 = 935" "upper_unit 968 = 936" "upper_unit 969 = 937" "upper_unit 1072 = 1040"
  "upper_unit 1077 = 1045" "upper_unit 1086 = 1054" "upper_unit 1088 = 1056" "upper_unit 1089 = 1057"
  "upper_unit 1091 = 1059" "upper_unit 1082 = 1050" "upper_unit 1093 = 1061"
  by (simp_all add: upper_unit_def)

text \<open>
  \<open>test\<close> is unfolded for a literal of the tables only, so that the simplifier does not
  unroll the search for a pattern that is still a bound variable.
\<close>

lemma test_literal: "test \<lparr>expr = r, ignoreCase = ic\<rparr> s = search ic r None s"
  by (simp add: test_def)

lemmas regex_defs = test_literal re_i_def re_cs_def lit_def words_def js_def any_star_def opt_def
  one_of_def canon_def upper_ascii lower_ascii upper_letters rep_match_def in_rng_def is_ws_def
  is_line_terminator_def is_word_unit_def word_before_def word_after_def toLowerCase_def
  free_tld_def digits_1_3_def cyrillic_range_def greek_letters_def cyrillic_lookalikes_def
  host_label_def

lemmas table_defs = fraudPatterns_url_def fraudPatterns_email_def fraudPatterns_sms_def
  safeIndicators_url_def safeIndicators_email_def safeIndicators_sms_def mk_rule_def

lemmas check_defs = score_def rule_scan_def extra_checks_def sms_checks_def email_checks_def
  url_checks_def url_structure_def push_def isSafeContent_def safeContentMultiplier_def
  sender_number_def reply_number_def capital_run_def exclamation_run_def
  suspicious_mail_domain_def amount_digits_def money_amount_def

lemma iter_numeral:
  "iter f (numeral n) sts = iter f (pred_numeral n) (concat (map f sts))"
  by (simp add: numeral_eq_Suc)

lemma rounds_numeral:
  "rounds f (numeral n) sts =
     (if sts = [] then [] else sts @ rounds f (pred_numeral n) (concat (map f sts)))"
  by (simp add: numeral_eq_Suc)

lemmas eval_defs = check_defs table_defs regex_defs iter_numeral rounds_numeral

text \<open>The assertions at work: a safe indicator of a URL is tied to the start of the text.\<close>

lemma safe_url_examples:
  "isSafeContent Url (js ''https://www.github.com/org/repo'')"
  "\<not> isSafeContent Url (js ''see https://www.github.com/org/repo'')"
  by (simp_all add: eval_defs)

lemma score_you_won:
  "score p Sms (js ''You won'') =
     (5/4, [''Prize scam indicators'', ''Short message with suspicious content''])"
  by (simp add: eval_defs)

lemma trim_you_won: "trim (js ''You won'') = js ''You won''"
  by (simp add: trim_def js_def is_ws_def)

lemma analyze_you_won:
  "analyzeContent True p (stamp_at n) Sms (js ''You won'') =
     Some \<lparr>alert_id = (Sms, n, 1/2), type = Sms, content = js ''You won'', threat = Medium,
       confidence = 31/60,
       reasons = [''Prize scam indicators'', ''Short message with suspicious content''],
       timestamp = n, blocked = False\<rparr>"
proof -
  have "js ''You won'' \<noteq> []" and "take 300 (js ''You won'') = js ''You won''"
    by (simp_all add: js_def)
  then show ?thesis
    by (simp add: analyzeContent_def totalWeight_def matchedReasons_def score_you_won
        trim_you_won make_alert_def confidence_of_def stamp_at_def Let_def)
qed

section \<open>The classifier\<close>

lemma analyze_Some:
  assumes "analyzeContent en p st ty c = Some a"
  shows "en \<and> trim c \<noteq> [] \<and> matchedReasons p ty c \<noteq> [] \<and> totalWeight p ty c \<ge> 6/10
    \<and> (\<exists>th. a = make_alert st ty c th (totalWeight p ty c) (matchedReasons p ty c)
          \<and> th = (if totalWeight p ty c \<ge> 2 then High
                  else if totalWeight p ty c \<ge> 12/10 then Medium else Low))"
  using assms by (auto simp: analyzeContent_def Let_def split: if_splits)







lemma confidence_of_bounds:
  assumes "tw \<ge> 6/10" and "rs \<noteq> []"
  shows "1/4 \<le> confidence_of tw rs" and "confidence_of tw rs \<le> 99/100"
proof -
  from assms(2) have "length rs \<ge> 1" by (cases rs) auto
  then have n: "(of_nat (length rs) :: rat) \<ge> 1" by simp
  define x where "x = (of_nat (length rs) :: rat)"
  have "1/4 \<le> min (min (tw / 3) (98/100) + min (x * (5/100)) (15/100)) (99/100)"
    using assms(1) n unfolding x_def[symmetric] min_def by (auto split: if_splits)
  then show "1/4 \<le> confidence_of tw rs" by (simp add: confidence_of_def Let_def x_def)
  show "confidence_of tw rs \<le> 99/100"
    unfolding confidence_of_def Let_def by (rule min.cobounded2)
qed

text \<open>
  C10. The confidence of a result lies between 0.25 and 0.99, so it never reaches 1: a
  result has a total weight of at least 0.6 and at least one reason.
\<close>

theorem confidence_range:
  assumes "analyzeContent en p st ty c = Some a"
  shows "1/4 \<le> confidence a \<and> confidence a \<le> 99/100 \<and> confidence a < 1"
proof -
  from analyze_Some[OF assms] obtain th where
    a: "a = make_alert st ty c th (totalWeight p ty c) (matchedReasons p ty c)"
    and tw: "totalWeight p ty c \<ge> 6/10" and rs: "matchedReasons p ty c \<noteq> []" by blast
  have "confidence a = confidence_of (totalWeight p ty c) (matchedReasons p ty c)"
    using a by (simp add: make_alert_def Let_def)
  with confidence_of_bounds[OF tw rs] show ?thesis by simp
qed


theorem confidence_range_witness:
  "analyzeContent True no_url (stamp_at 1) Sms (js ''You won'') \<noteq> None
   \<and> 1/4 \<le> confidence (the (analyzeContent True no_url (stamp_at 1) Sms (js ''You won'')))
   \<and> confidence (the (analyzeContent True no_url (stamp_at 1) Sms (js ''You won''))) < 1"
  using confidence_range[OF analyze_you_won[of no_url 1]]
  by (simp add: analyze_you_won)

section \<open>The score\<close>



























section \<open>A URL that does not parse\<close>







section \<open>Evaluations without a result\<close>

text \<open>
  C3. There is no result when the engine is disabled or the content is blank, and none
  when no check collected a reason. Without a result the callers leave their state,
  and with it the alert history, as it was.
\<close>

theorem no_result:
  "(\<not> en \<or> trim c = [] \<longrightarrow> analyzeContent en p st ty c = None)
   \<and> (matchedReasons p ty c = [] \<longrightarrow> analyzeContent en p st ty c = None)
   \<and> (analyzeContent en p st ty c = None \<longrightarrow> handleManualTest en p st ty c s = s)
   \<and> (analyzeContent en p st Url c = None \<longrightarrow> handleClick en p st (Some c) s = s)
   \<and> (analyzeContent en p st Email c = None \<longrightarrow> observe_node en p st c s = s)"
  by (simp add: analyzeContent_def handleManualTest_def handleClick_def observe_node_def Let_def)


lemma score_hello: "score p Sms (js ''hello'') = (0, [])"
  by (simp add: eval_defs)

lemma trim_blank: "trim (js ''  '') = []"
  by (simp add: trim_def js_def is_ws_def)

lemma trim_hello: "trim (js ''hello'') \<noteq> []"
  by (simp add: trim_def js_def is_ws_def)

theorem no_result_witness:
  "trim (js ''  '') = []
   \<and> analyzeContent True no_url (stamp_at 1) Sms (js ''  '') = None
   \<and> handleManualTest True no_url (stamp_at 1) Sms (js ''  '') initial_state = initial_state
   \<and> analyzeContent True no_url (stamp_at 1) Url (js ''  '') = None
   \<and> handleClick True no_url (stamp_at 1) (Some (js ''  '')) initial_state = initial_state
   \<and> analyzeContent True no_url (stamp_at 1) Email (js ''  '') = None
   \<and> observe_node True no_url (stamp_at 1) (js ''  '') initial_state = initial_state
   \<and> trim (js ''hello'') \<noteq> []
   \<and> matchedReasons no_url Sms (js ''hello'') = []
   \<and> analyzeContent True no_url (stamp_at 1) Sms (js ''hello'') = None
   \<and> handleManualTest True no_url (stamp_at 1) Sms (js ''hello'') initial_state = initial_state"
proof -
  have m: "matchedReasons no_url Sms (js ''hello'') = []"
    by (simp add: matchedReasons_def score_hello)
  note a = no_result[of True "js ''  ''" no_url "stamp_at 1" Sms initial_state]
  note b = no_result[of True "js ''hello''" no_url "stamp_at 1" Sms initial_state]
  note u = no_result[of True "js ''  ''" no_url "stamp_at 1" Url initial_state]
  note e = no_result[of True "js ''  ''" no_url "stamp_at 1" Email initial_state]
  from a b u e trim_blank trim_hello m show ?thesis by simp
qed

section \<open>The bounded history\<close>

lemma perform_alerts:
  "alerts (perform en p e s) =
     (case outcome en p e of None \<Rightarrow> alerts s | Some a \<Rightarrow> add_alert a (alerts s))"
  by (cases e)
    (auto simp: handleClick_def observe_node_def handleManualTest_def record_alert_def
          split: option.splits)

lemma take_add_alert:
  "take (10 - n) (add_alert a xs) = take (10 - n) (a # xs)"
  by (cases "10 - n") (simp_all add: add_alert_def min_def)

lemma run_alerts:
  "alerts (run en p es s) = take 10 (rev (outcomes en p es) @ alerts s)" if "length (alerts s) \<le> 10"
  using that
proof (induction es arbitrary: s)
  case Nil
  then show ?case by (simp add: outcomes_def List.map_filter_simps)
next
  case (Cons e es)
  show ?case
  proof (cases "outcome en p e")
    case None
    with Cons show ?thesis by (simp add: outcomes_def List.map_filter_simps perform_alerts)
  next
    case (Some a)
    have l: "length (alerts (perform en p e s)) \<le> 10"
      by (simp add: perform_alerts Some add_alert_def)
    show ?thesis
      using Cons.IH[OF l] Some
      by (simp add: outcomes_def List.map_filter_simps perform_alerts take_add_alert)
  qed
qed


text \<open>
  C7. After any sequence of evaluations the history holds at most ten alerts, the
  newest first: it is the last ten results in reverse order of arrival. After
  evaluations with fifteen results these are the results 6 to 15, the five oldest
  having been dropped.
\<close>

theorem history_bounded:
  "length (alerts (run en p es initial_state)) \<le> 10
   \<and> alerts (run en p es initial_state) = take 10 (rev (outcomes en p es))
   \<and> (length (outcomes en p es) = 15 \<longrightarrow>
        alerts (run en p es initial_state) = rev (drop 5 (outcomes en p es)))"
proof -
  have a: "alerts (run en p es initial_state) = take 10 (rev (outcomes en p es))"
    using run_alerts[of initial_state en p es] by (simp add: initial_state_def)
  have "take 10 (rev xs) = rev (drop 5 xs)" if "length xs = 15" for xs :: "fraud_alert list"
    using that by (simp add: take_rev)
  with a show ?thesis by simp
qed

lemma outcome_you_won:
  "outcome True p (ManualTest (stamp_at n) Sms (js ''You won'')) =
     analyzeContent True p (stamp_at n) Sms (js ''You won'')"
proof -
  have "trim (js ''You won'') \<noteq> []" unfolding trim_you_won by (simp add: js_def)
  then show ?thesis by simp
qed

lemma outcomes_fifteen:
  "map timestamp (outcomes True no_url fifteen_tests) =
     [1, 2, 3, 4, 5, 6, 7, 8, 9, 10, 11, 12, 13, 14, 15]"
  by (simp add: outcomes_def fifteen_tests_def List.map_filter_simps outcome_you_won
      analyze_you_won del: outcome.simps)

theorem history_bounded_witness:
  "length (outcomes True no_url fifteen_tests) = 15
   \<and> alerts (run True no_url fifteen_tests initial_state)
       = rev (drop 5 (outcomes True no_url fifteen_tests))
   \<and> map timestamp (alerts (run True no_url fifteen_tests initial_state))
       = [15, 14, 13, 12, 11, 10, 9, 8, 7, 6]"
proof -
  have l: "length (outcomes True no_url fifteen_tests) = 15"
    using arg_cong[OF outcomes_fifteen, of length] by simp
  from history_bounded[of True no_url fifteen_tests] l
  have a: "alerts (run True no_url fifteen_tests initial_state)
       = rev (drop 5 (outcomes True no_url fifteen_tests))" by blast
  have "map timestamp (rev (drop 5 (outcomes True no_url fifteen_tests)))
       = [15, 14, 13, 12, 11, 10, 9, 8, 7, 6]"
    by (simp add: rev_map[symmetric] drop_map[symmetric] outcomes_fifteen)
  with l a show ?thesis by simp
qed

section \<open>Reasons are collected once\<close>
























section \<open>Appending text\<close>



lemma rounds_Nil: "rounds f k [] = []"
  by (cases k) simp_all









lemma trim_empty: "trim s = [] \<longleftrightarrow> (\<forall>c \<in> set s. is_ws c)"
proof
  assume "trim s = []"
  then have a: "\<forall>x \<in> set (dropWhile is_ws s). is_ws x"
    by (simp add: trim_def dropWhile_eq_Nil_conv)
  have "dropWhile is_ws s = []"
  proof (rule ccontr)
    assume n: "dropWhile is_ws s \<noteq> []"
    then have "\<not> is_ws (hd (dropWhile is_ws s))" by (rule hd_dropWhile)
    moreover from n have "hd (dropWhile is_ws s) \<in> set (dropWhile is_ws s)" by simp
    ultimately show False using a by blast
  qed
  then show "\<forall>c \<in> set s. is_ws c" by (simp add: dropWhile_eq_Nil_conv)
next
  assume "\<forall>c \<in> set s. is_ws c"
  then have d: "dropWhile is_ws s = []" by (simp add: dropWhile_eq_Nil_conv)
  show "trim s = []" unfolding trim_def d by simp
qed


lemma email_anchored_rule:
  "\<forall>r \<in> set (fraudPatterns Email). \<not> anchor_free (expr (pattern r)) \<longrightarrow>
     reason r = ''Common spelling errors in scam emails''"
  by (simp add: table_defs regex_defs)













lemma trim_nonblank: "c \<in> set s \<Longrightarrow> \<not> is_ws c \<Longrightarrow> trim s \<noteq> []"
  by (auto simp: trim_empty)









lemma score_won_now:
  "score p Sms (js ''You won now'') =
     (41/20, [''Prize scam indicators'', ''Creates false urgency'',
        ''Short message with suspicious content''])"
  by (simp add: eval_defs)

lemma score_won_now_unsubscribe:
  "score p Sms (js ''You won now reply stop to unsubscribe'') =
     (177/100, [''Prize scam indicators'', ''Creates false urgency'', ''Subscription scam pattern'',
        ''Short message with suspicious content''])"
  by (simp add: eval_defs)

lemma safe_won_now_unsubscribe:
  "isSafeContent Sms (js ''You won now reply stop to unsubscribe'')"
  by (simp add: eval_defs)

text \<open>
  The safe-content multiplier breaks the claim as well. The base \<^verbatim>\<open>You won now\<close>
  scores 0.95 + 0.8 + 0.3 = 2.05, High. The suffix \<^verbatim>\<open> reply stop to unsubscribe\<close>
  matches the subscription rule and a safe indicator, which scales the three rule
  weights by 0.6: 2.45 * 0.6 + 0.3 = 1.77, Medium.
\<close>

theorem appended_safe_text_example:
  "isSafeContent Sms (js ''You won now'' @ js '' reply stop to unsubscribe'')
   \<and> totalWeight no_url Sms (js ''You won now'') = 41/20
   \<and> totalWeight no_url Sms (js ''You won now'' @ js '' reply stop to unsubscribe'') = 177/100
   \<and> threat_rank (analyzeContent True no_url (stamp_at 1) Sms (js ''You won now'')) = 3
   \<and> threat_rank (analyzeContent True no_url (stamp_at 2) Sms
         (js ''You won now'' @ js '' reply stop to unsubscribe'')) = 2"
proof -
  let ?b = "js ''You won now''"
  let ?e = "js ''You won now reply stop to unsubscribe''"
  have e: "js ''You won now'' @ js '' reply stop to unsubscribe'' = ?e" by (simp add: js_def)
  have m: "89 \<in> set ?b" "89 \<in> set ?e" "\<not> is_ws 89" by (simp_all add: js_def is_ws_def)
  have t: "trim ?b \<noteq> []" "trim ?e \<noteq> []"
    by (rule trim_nonblank[OF m(1) m(3)], rule trim_nonblank[OF m(2) m(3)])
  have "threat_rank (analyzeContent True no_url (stamp_at 1) Sms ?b) = 3"
    using t(1) by (simp add: analyzeContent_def totalWeight_def matchedReasons_def
        score_won_now Let_def make_alert_def)
  moreover have "threat_rank (analyzeContent True no_url (stamp_at 2) Sms ?e) = 2"
    using t(2) by (simp add: analyzeContent_def totalWeight_def matchedReasons_def
        score_won_now_unsubscribe Let_def make_alert_def)
  ultimately show ?thesis
    unfolding e
    by (simp add: safe_won_now_unsubscribe totalWeight_def score_won_now score_won_now_unsubscribe)
qed

end
